theory Spec2Isabelle
  imports Complex_Main
begin

section \<open>Errors\<close>

text \<open>
  The exception classes the two services throw or let through.  \<open>WorkerError q\<close> is
  the plain \<^verbatim>\<open>new Error(`"${queueName}" worker couldn't process it.`)\<close> of the
  job processor; \<open>CollaboratorError\<close> stands for whatever a collaborator that is
  imported by the services (shipping, payment and order services, the ORM) throws.
\<close>

datatype error =
    ProductNotFoundError
  | CartNotFoundError
  | CartItemNotFoundError
  | RangeError
  | WorkerError string
  | CollaboratorError string

section \<open>Cart service (\<^verbatim>\<open>Cart.service.ts\<close>)\<close>

text \<open>
  The two tables the service touches.  A table is the list of its rows in the order
  the store returns them; \<^verbatim>\<open>findOne\<close> yields the first row that satisfies
  the \<^verbatim>\<open>where\<close> clause.
\<close>

record cart =
  cart_id :: int
  cart_customerId :: int

record cart_item =
  cartId :: int
  productId :: int
  quantity :: int

record cart_db =
  carts :: "cart list"
  cartItems :: "cart_item list"

text \<open>\<^verbatim>\<open>item.save()\<close>: the row that \<^verbatim>\<open>findOne\<close> returned is rewritten in place.\<close>

fun save_first :: "('a \<Rightarrow> bool) \<Rightarrow> ('a \<Rightarrow> 'a) \<Rightarrow> 'a list \<Rightarrow> 'a list" where
  "save_first P f [] = []"
| "save_first P f (x # xs) = (if P x then f x # xs else x # save_first P f xs)"

text \<open>
  \<^verbatim>\<open>item.destroy()\<close>: the row that \<^verbatim>\<open>findOne\<close> returned is deleted.  The
  source does not await the deletion and then saves the unchanged instance, which
  writes nothing; the deletion is taken as done when the call returns.
\<close>

fun destroy_first :: "('a \<Rightarrow> bool) \<Rightarrow> 'a list \<Rightarrow> 'a list" where
  "destroy_first P [] = []"
| "destroy_first P (x # xs) = (if P x then xs else x # destroy_first P xs)"

text \<open>The parameter default \<^verbatim>\<open>quantity: number = 1\<close>.\<close>

definition quantity_or_default :: "int option \<Rightarrow> int" where
  "quantity_or_default q = (case q of None \<Rightarrow> 1 | Some n \<Rightarrow> n)"

text \<open>
  \<^verbatim>\<open>addItemToCart\<close>.  The \<^verbatim>\<open>where\<close> clause of \<^verbatim>\<open>findOrCreate\<close> is
  \<^verbatim>\<open>{ productId }\<close>; the cart id only appears in the \<^verbatim>\<open>defaults\<close> of a row
  that has to be created.  The result pairs what the promise settles to with the store
  afterwards.
\<close>

definition addItemToCart ::
  "cart_db \<Rightarrow> int \<Rightarrow> int \<Rightarrow> int option \<Rightarrow> (error + bool) \<times> cart_db" where
  "addItemToCart db customerId pid q =
     (case List.find (\<lambda>c. cart_customerId c = customerId) (carts db) of
        None \<Rightarrow> (Inl CartNotFoundError, db)
      | Some c \<Rightarrow>
          (case List.find (\<lambda>i. productId i = pid) (cartItems db) of
             None \<Rightarrow>
               (Inr True,
                db\<lparr>cartItems := cartItems db @
                  [\<lparr>cartId = cart_id c, productId = pid,
                    quantity = quantity_or_default q\<rparr>]\<rparr>)
           | Some item \<Rightarrow>
               (Inr True,
                db\<lparr>cartItems :=
                  save_first (\<lambda>i. productId i = pid)
                    (\<lambda>i. i\<lparr>quantity := quantity i + quantity_or_default q\<rparr>)
                    (cartItems db)\<rparr>)))"

text \<open>
  \<^verbatim>\<open>removeItemFromCart\<close>.  Here the row is looked up by
  \<^verbatim>\<open>{ cartId: cart.id, productId }\<close>.
\<close>

definition removeItemFromCart ::
  "cart_db \<Rightarrow> int \<Rightarrow> int \<Rightarrow> (error + bool) \<times> cart_db" where
  "removeItemFromCart db customerId pid =
     (case List.find (\<lambda>c. cart_customerId c = customerId) (carts db) of
        None \<Rightarrow> (Inl CartNotFoundError, db)
      | Some c \<Rightarrow>
          (case List.find (\<lambda>i. cartId i = cart_id c \<and> productId i = pid) (cartItems db) of
             None \<Rightarrow> (Inl CartItemNotFoundError, db)
           | Some item \<Rightarrow>
               if quantity item > 1
               then (Inr True,
                     db\<lparr>cartItems :=
                       save_first (\<lambda>i. cartId i = cart_id c \<and> productId i = pid)
                         (\<lambda>i. i\<lparr>quantity := quantity i - 1\<rparr>) (cartItems db)\<rparr>)
               else (Inr True,
                     db\<lparr>cartItems :=
                       destroy_first (\<lambda>i. cartId i = cart_id c \<and> productId i = pid)
                         (cartItems db)\<rparr>)))"

text \<open>The rows of one cart for one product.\<close>

definition rows_of :: "cart_db \<Rightarrow> int \<Rightarrow> int \<Rightarrow> cart_item list" where
  "rows_of db cid pid = filter (\<lambda>i. cartId i = cid \<and> productId i = pid) (cartItems db)"

section \<open>Billing worker (\<^verbatim>\<open>Worker.service.ts\<close>)\<close>

subsection \<open>Data\<close>

datatype WeightRange = light | standard | heavy

record OrderItem =
  item_productId :: int
  item_quantity :: int

text \<open>
  \<^verbatim>\<open>job.data\<close>: the fields the worker reads, and \<open>shippingMethod\<close>, which the
  queue contract puts into the payload and the worker never reads.  \<open>period\<close> is a
  number of milliseconds (it is added to \<^verbatim>\<open>Date.now()\<close>).
\<close>

record job_data =
  userId :: int
  orderItems :: "OrderItem list"
  paymentMethodId :: string
  paymentMethod :: string
  currency :: string
  shippingCountry :: string
  shippingMethod :: string
  period :: int
  startDate :: string
  endDate :: string

record job =
  job_id :: string
  job_data :: job_data

record shipping_quote =
  cost :: rat
  weightRange :: WeightRange

text \<open>What the worker reads of the order that \<^verbatim>\<open>createOrder\<close> returns.\<close>

record order =
  order_id :: int
  order_customerId :: int

text \<open>
  A calendar date \<^verbatim>\<open>toISOString().split('T')[0]\<close> is kept as the number of the
  UTC day since the epoch, which the text \<^verbatim>\<open>YYYY-MM-DD\<close> determines and is
  determined by.
\<close>

type_synonym iso_date = int

record subscription =
  sub_customerId :: int
  sub_orderId :: int
  sub_startDate :: string
  sub_endDate :: string
  lastPaymentDate :: iso_date
  nextPaymentDate :: iso_date

subsection \<open>Collaborators and effects\<close>

text \<open>
  The services, the ORM and the clock are imported by the worker; each is a parameter:
  what the call answers for the arguments it is given.  \<open>newDate\<close> and \<open>dateNow\<close> are the
  instants (milliseconds since the epoch) that \<^verbatim>\<open>new Date()\<close> and
  \<^verbatim>\<open>Date.now()\<close> read in the \<^verbatim>\<open>completed\<close> listener.
\<close>

record services =
  findProductPrice :: "int \<Rightarrow> rat option"
  calculateShippingCost ::
    "string \<Rightarrow> string \<Rightarrow> rat option \<Rightarrow> OrderItem list \<Rightarrow> error + shipping_quote"
  createPaymentIntent :: "int \<Rightarrow> rat \<Rightarrow> string \<Rightarrow> string \<Rightarrow> error option"
  createOrder ::
    "int \<Rightarrow> OrderItem list \<Rightarrow> string \<Rightarrow> string \<Rightarrow> WeightRange \<Rightarrow> string \<Rightarrow> error + order"
  subscriptionCreate :: "subscription \<Rightarrow> error option"
  transactionCommit :: "error option"
  newDate :: int
  dateNow :: int

text \<open>The lines the worker writes to the console.\<close>

datatype console_line =
    PaymentIntentCreated
  | ProcessorError error
  | JobCompleted string
  | CompleteEventError error
  | JobFailed string error

text \<open>
  Every call that leaves the worker, with the arguments as the source passes them, in
  the order the calls are made.
\<close>

datatype event =
    CalculateShippingCost string string "rat option" "OrderItem list"
  | CreatePaymentIntent int rat string string
  | Console console_line
  | BeginTransaction
  | CreateOrder int "OrderItem list" string string WeightRange string
  | SubscriptionCreate subscription
  | Commit
  | Rollback

text \<open>
  The calls made so far, the committed rows of the two tables, and the rows written
  through the open transaction that are not committed yet.
\<close>

record world =
  trace :: "event list"
  orders :: "order list"
  subscriptions :: "subscription list"
  tx_orders :: "order list"
  tx_subscriptions :: "subscription list"

definition emit :: "event \<Rightarrow> world \<Rightarrow> world" where
  "emit e w = w\<lparr>trace := trace w @ [e]\<rparr>"

fun is_charge :: "event \<Rightarrow> bool" where
  "is_charge (CreatePaymentIntent u a c p) = True"
| "is_charge _ = False"

definition charges :: "world \<Rightarrow> event list" where
  "charges w = filter is_charge (trace w)"

subsection \<open>\<^verbatim>\<open>processPayment\<close>\<close>

text \<open>
  Numbers are exact rationals.  \<^verbatim>\<open>parseFloat(x.toFixed(2))\<close> is the multiple of
  \<open>1/100\<close> nearest to \<open>x\<close>, a tie going away from zero (\<^verbatim>\<open>toFixed\<close> rounds the
  absolute value, taking the larger candidate on a tie).
\<close>

definition toFixed2 :: "rat \<Rightarrow> rat" where
  "toFixed2 x =
     (if x < 0 then - (of_int \<lfloor>(- x) * 100 + 1 / 2\<rfloor> / 100)
      else of_int \<lfloor>x * 100 + 1 / 2\<rfloor> / 100)"

text \<open>
  \<^verbatim>\<open>Promise.all(job.data.orderItems.map(...))\<close>: the price of every line, or the
  rejection with \<^verbatim>\<open>ProductNotFoundError\<close> when a product is missing.  The
  lookup \<^verbatim>\<open>Product.findByPk\<close> itself always answers, so this is the only
  rejection and it does not matter which line rejects first.
\<close>

fun linePrices :: "(int \<Rightarrow> rat option) \<Rightarrow> OrderItem list \<Rightarrow> error + rat list" where
  "linePrices price [] = Inr []"
| "linePrices price (i # is) =
     (case price (item_productId i) of
        None \<Rightarrow> Inl ProductNotFoundError
      | Some p \<Rightarrow>
          (case linePrices price is of
             Inl e \<Rightarrow> Inl e
           | Inr ps \<Rightarrow> Inr (p * of_int (item_quantity i) # ps)))"

definition processPayment :: "services \<Rightarrow> job \<Rightarrow> world \<Rightarrow> (error + WeightRange) \<times> world" where
  "processPayment sv j w =
     (let d = job_data j in
      (case linePrices (findProductPrice sv) (orderItems d) of
         Inl e \<Rightarrow> (Inl e, w)
       | Inr prices \<Rightarrow>
          (let productTotal = foldl (\<lambda>acc price. acc + price) 0 prices;
               w1 = emit (CalculateShippingCost (shippingCountry d) ''next-day'' None
                            (orderItems d)) w
           in (case calculateShippingCost sv (shippingCountry d) ''next-day'' None
                      (orderItems d) of
                 Inl e \<Rightarrow> (Inl e, w1)
               | Inr quote \<Rightarrow>
                  (let totalAmount = toFixed2 (productTotal + cost quote);
                       w2 = emit (CreatePaymentIntent (userId d) totalAmount (currency d)
                                    (paymentMethodId d)) w1
                   in (case createPaymentIntent sv (userId d) totalAmount (currency d)
                              (paymentMethodId d) of
                         Some e \<Rightarrow> (Inl e, w2)
                       | None \<Rightarrow>
                           (Inr (weightRange quote),
                            emit (Console PaymentIntentCreated) w2)))))))"

subsection \<open>The job processor and the listeners\<close>

text \<open>
  The processor given to \<^verbatim>\<open>new Worker\<close>: an error of \<^verbatim>\<open>processPayment\<close> is
  written to the console and replaced by \<open>WorkerError queueName\<close>.
\<close>

definition processor ::
  "services \<Rightarrow> string \<Rightarrow> job \<Rightarrow> world \<Rightarrow> (error + WeightRange) \<times> world" where
  "processor sv queueName j w =
     (case processPayment sv j w of
        (Inr returnValue, w') \<Rightarrow> (Inr returnValue, w')
      | (Inl e, w') \<Rightarrow> (Inl (WorkerError queueName), emit (Console (ProcessorError e)) w'))"

text \<open>
  \<^verbatim>\<open>toISOString\<close> throws \<^verbatim>\<open>RangeError\<close> on a time value outside
  \<open>\<plusminus>8.64e15\<close> ms; otherwise the date part is the UTC day.
\<close>

definition toISODate :: "int \<Rightarrow> error + iso_date" where
  "toISODate t =
     (if \<bar>t\<bar> > 8640000000000000 then Inl RangeError else Inr (t div 86400000))"

text \<open>
  The transaction: \<^verbatim>\<open>sequelize.transaction()\<close> opens one with no rows written,
  \<^verbatim>\<open>commit\<close> moves its rows into the tables, \<^verbatim>\<open>rollback\<close> drops them.
\<close>

definition transaction_begin :: "world \<Rightarrow> world" where
  "transaction_begin w = (emit BeginTransaction w)\<lparr>tx_orders := [], tx_subscriptions := []\<rparr>"

definition transaction_commit :: "world \<Rightarrow> world" where
  "transaction_commit w =
     w\<lparr>orders := orders w @ tx_orders w,
       subscriptions := subscriptions w @ tx_subscriptions w,
       tx_orders := [], tx_subscriptions := []\<rparr>"

definition transaction_rollback :: "world \<Rightarrow> world" where
  "transaction_rollback w = (emit Rollback w)\<lparr>tx_orders := [], tx_subscriptions := []\<rparr>"

text \<open>
  The \<^verbatim>\<open>try\<close> block of the \<^verbatim>\<open>completed\<close> listener.  Both writes are
  given the transaction: the order that \<^verbatim>\<open>createOrder\<close> returns and the
  subscription row are rows of the transaction until the commit.  The result is the
  error the block throws, if any.
\<close>

definition persist ::
  "services \<Rightarrow> job_data \<Rightarrow> WeightRange \<Rightarrow> iso_date \<Rightarrow> iso_date \<Rightarrow> world
     \<Rightarrow> error option \<times> world" where
  "persist sv d returnValue paymentDate nextPayment w =
     (let w1 = emit (CreateOrder (userId d) (orderItems d) (paymentMethod d)
                       (shippingCountry d) returnValue ''next-day'') w
      in (case createOrder sv (userId d) (orderItems d) (paymentMethod d)
                 (shippingCountry d) returnValue ''next-day'' of
            Inl e \<Rightarrow> (Some e, w1)
          | Inr ord \<Rightarrow>
             (let subscriptionData =
                    \<lparr>sub_customerId = order_customerId ord,
                     sub_orderId = order_id ord,
                     sub_startDate = startDate d,
                     sub_endDate = endDate d,
                     lastPaymentDate = paymentDate,
                     nextPaymentDate = nextPayment\<rparr>;
                  w2 = emit (SubscriptionCreate subscriptionData)
                         (w1\<lparr>tx_orders := tx_orders w1 @ [ord]\<rparr>)
              in (case subscriptionCreate sv subscriptionData of
                    Some e \<Rightarrow> (Some e, w2)
                  | None \<Rightarrow>
                     (let w3 = emit Commit
                                 (w2\<lparr>tx_subscriptions :=
                                       tx_subscriptions w2 @ [subscriptionData]\<rparr>)
                      in (case transactionCommit sv of
                            Some e \<Rightarrow> (Some e, w3)
                          | None \<Rightarrow> (None, transaction_commit w3)))))))"

text \<open>
  The \<^verbatim>\<open>catch\<close> block: the transaction is rolled back and the error is written
  to the console.
\<close>

definition on_persist_error :: "error \<Rightarrow> world \<Rightarrow> world" where
  "on_persist_error e w = emit (Console (CompleteEventError e)) (transaction_rollback w)"

text \<open>
  The \<^verbatim>\<open>completed\<close> listener.  The result is the error the listener's promise
  rejects with, if any: the two dates are computed before the \<^verbatim>\<open>try\<close>.
  Opening the transaction and rolling it back are taken to succeed.
\<close>

definition on_completed ::
  "services \<Rightarrow> job \<Rightarrow> WeightRange \<Rightarrow> world \<Rightarrow> error option \<times> world" where
  "on_completed sv j returnValue w =
     (let d = job_data j;
          w0 = emit (Console (JobCompleted (job_id j))) w
      in (case toISODate (newDate sv) of
            Inl e \<Rightarrow> (Some e, w0)
          | Inr paymentDate \<Rightarrow>
             (case toISODate (dateNow sv + period d) of
                Inl e \<Rightarrow> (Some e, w0)
              | Inr nextPayment \<Rightarrow>
                 (case persist sv d returnValue paymentDate nextPayment
                         (transaction_begin w0) of
                    (None, w') \<Rightarrow> (None, w')
                  | (Some e, w') \<Rightarrow> (None, on_persist_error e w')))))"

text \<open>The \<^verbatim>\<open>failed\<close> listener.\<close>

definition on_failed :: "job \<Rightarrow> error \<Rightarrow> world \<Rightarrow> world" where
  "on_failed j err w = emit (Console (JobFailed (job_id j) err)) w"

text \<open>
  How the queue library settles a job: \<open>completed\<close> with the processor's return value,
  or \<open>failed\<close> with the error the processor threw.
\<close>

datatype job_state = completed WeightRange | failed error

text \<open>
  One delivery of a job to a listening worker: the processor runs, the job is settled,
  and the listener of its final state runs.
\<close>

definition handle_job :: "services \<Rightarrow> string \<Rightarrow> job \<Rightarrow> world \<Rightarrow> job_state \<times> world" where
  "handle_job sv queueName j w =
     (case processor sv queueName j w of
        (Inr returnValue, w') \<Rightarrow> (completed returnValue, snd (on_completed sv j returnValue w'))
      | (Inl err, w') \<Rightarrow> (failed err, on_failed j err w'))"

subsection \<open>Observations\<close>

text \<open>The calls made between two states of the world.\<close>

definition new_events :: "world \<Rightarrow> world \<Rightarrow> event list" where
  "new_events w w' = drop (length (trace w)) (trace w')"


section \<open>Concrete data\<close>

text \<open>
  Two customers with a cart each; the cart of customer 7 holds two units of product 5
  and one unit of product 6, the cart of customer 8 is empty.
\<close>

definition shop_db :: cart_db where
  "shop_db =
     \<lparr>carts = [\<lparr>cart_id = 1, cart_customerId = 7\<rparr>, \<lparr>cart_id = 2, cart_customerId = 8\<rparr>],
      cartItems = [\<lparr>cartId = 1, productId = 5, quantity = 2\<rparr>,
                   \<lparr>cartId = 1, productId = 6, quantity = 1\<rparr>]\<rparr>"

text \<open>
  The end-to-end job of the specification: customer 1, two units of product 5, shipped
  to the US, a period of 30 days.  Its payload names the shipping method
  \<^verbatim>\<open>standard\<close>.
\<close>

definition demo_job :: job where
  "demo_job =
     \<lparr>job_id = ''42'',
      job_data =
        \<lparr>userId = 1,
         orderItems = [\<lparr>item_productId = 5, item_quantity = 2\<rparr>],
         paymentMethodId = ''pm_card'',
         paymentMethod = ''card'',
         currency = ''usd'',
         shippingCountry = ''US'',
         shippingMethod = ''standard'',
         period = 2592000000,
         startDate = ''2025-01-01'',
         endDate = ''2026-01-01''\<rparr>\<rparr>"

text \<open>
  Collaborators that all succeed: product 5 costs 20.00, next-day shipping to the US
  costs 9.99 in the standard weight range, and the clock reads noon of 2025-01-01 UTC
  (day 20089) both times.
\<close>

definition demo_services :: services where
  "demo_services =
     \<lparr>findProductPrice = (\<lambda>p. if p = 5 then Some 20 else None),
      calculateShippingCost =
        (\<lambda>country method weight items.
           if country = ''US'' \<and> method = ''next-day''
           then Inr \<lparr>cost = 999 / 100, weightRange = standard\<rparr>
           else Inl (CollaboratorError ''shipping'')),
      createPaymentIntent = (\<lambda>customer amount cur pm. None),
      createOrder =
        (\<lambda>customer items pm country weight method.
           Inr \<lparr>order_id = 100, order_customerId = customer\<rparr>),
      subscriptionCreate = (\<lambda>s. None),
      transactionCommit = None,
      newDate = 1735732800000,
      dateNow = 1735732800000\<rparr>"

definition empty_world :: world where
  "empty_world =
     \<lparr>trace = [], orders = [], subscriptions = [], tx_orders = [], tx_subscriptions = []\<rparr>"


text \<open>The same collaborators after product 5 has been deleted.\<close>

definition no_product_services :: services where
  "no_product_services = demo_services\<lparr>findProductPrice := (\<lambda>p. None)\<rparr>"

section \<open>Cart service: properties\<close>

lemma find_split:
  "P x \<Longrightarrow> \<forall>y\<in>set ys. \<not> P y \<Longrightarrow> List.find P (ys @ x # zs) = Some x"
  by (induction ys) auto

lemma save_first_split:
  "P x \<Longrightarrow> \<forall>y\<in>set ys. \<not> P y \<Longrightarrow> save_first P f (ys @ x # zs) = ys @ f x # zs"
  by (induction ys) auto

lemma destroy_first_split:
  "P x \<Longrightarrow> \<forall>y\<in>set ys. \<not> P y \<Longrightarrow> destroy_first P (ys @ x # zs) = ys @ zs"
  by (induction ys) auto

lemma find_absent: "\<forall>y\<in>set xs. \<not> P y \<Longrightarrow> List.find P xs = None"
  by (induction xs) auto

lemma find_present: "x \<in> set xs \<Longrightarrow> P x \<Longrightarrow> List.find P xs \<noteq> None"
  by (induction xs) auto

lemma length_save_first: "length (save_first P f xs) = length xs"
  by (induction xs) auto

text \<open>
  Claim C9.  Let \<open>c\<close> be the customer's cart.  If \<open>item\<close> is the first row of that cart
  for the product, \<^verbatim>\<open>removeItemFromCart\<close> succeeds and rewrites exactly that row
  with its quantity lowered by one when the quantity is above 1, and deletes exactly
  that row otherwise (so at quantity 1); every other row stays as it is.  If the cart
  has no row for the product, the call fails with \<open>CartItemNotFoundError\<close> and the
  store is unchanged.
\<close>

theorem removeItemFromCart_cases:
  assumes c: "List.find (\<lambda>c. cart_customerId c = customerId) (carts db) = Some c"
  shows "(\<forall>ys item zs.
            cartItems db = ys @ item # zs \<and> cartId item = cart_id c \<and> productId item = pid \<and>
            (\<forall>y\<in>set ys. \<not> (cartId y = cart_id c \<and> productId y = pid)) \<longrightarrow>
            removeItemFromCart db customerId pid =
              (Inr True,
               db\<lparr>cartItems :=
                 (if quantity item > 1 then ys @ item\<lparr>quantity := quantity item - 1\<rparr> # zs
                  else ys @ zs)\<rparr>)) \<and>
         ((\<forall>i\<in>set (cartItems db). \<not> (cartId i = cart_id c \<and> productId i = pid)) \<longrightarrow>
            removeItemFromCart db customerId pid = (Inl CartItemNotFoundError, db))"
proof (intro conjI allI impI)
  fix ys item zs
  let ?P = "\<lambda>i. cartId i = cart_id c \<and> productId i = pid"
  assume h: "cartItems db = ys @ item # zs \<and> cartId item = cart_id c \<and> productId item = pid \<and>
            (\<forall>y\<in>set ys. \<not> (cartId y = cart_id c \<and> productId y = pid))"
  then have P: "?P item" and ys: "\<forall>y\<in>set ys. \<not> ?P y" and eq: "cartItems db = ys @ item # zs"
    by simp_all
  have f: "List.find ?P (cartItems db) = Some item"
    unfolding eq using P ys by (rule find_split)
  have s: "save_first ?P g (cartItems db) = ys @ g item # zs" for g
    unfolding eq using P ys by (rule save_first_split)
  have d: "destroy_first ?P (cartItems db) = ys @ zs"
    unfolding eq using P ys by (rule destroy_first_split)
  show "removeItemFromCart db customerId pid =
              (Inr True,
               db\<lparr>cartItems :=
                 (if quantity item > 1 then ys @ item\<lparr>quantity := quantity item - 1\<rparr> # zs
                  else ys @ zs)\<rparr>)"
    by (simp add: removeItemFromCart_def c f s d)
next
  assume "\<forall>i\<in>set (cartItems db). \<not> (cartId i = cart_id c \<and> productId i = pid)"
  then have "List.find (\<lambda>i. cartId i = cart_id c \<and> productId i = pid) (cartItems db) = None"
    by (rule find_absent)
  then show "removeItemFromCart db customerId pid = (Inl CartItemNotFoundError, db)"
    by (simp add: removeItemFromCart_def c)
qed

text \<open>
  Witness for C9 in \<open>shop_db\<close>: customer 7 removes product 5 (quantity 2, lowered to
  1), product 6 (quantity 1, row deleted) and product 9 (absent, error).
\<close>

theorem removeItemFromCart_cases_witness:
  "List.find (\<lambda>c. cart_customerId c = 7) (carts shop_db) = Some \<lparr>cart_id = 1, cart_customerId = 7\<rparr> \<and>
   removeItemFromCart shop_db 7 5 =
     (Inr True,
      shop_db\<lparr>cartItems := [\<lparr>cartId = 1, productId = 5, quantity = 1\<rparr>,
                              \<lparr>cartId = 1, productId = 6, quantity = 1\<rparr>]\<rparr>) \<and>
   removeItemFromCart shop_db 7 6 =
     (Inr True, shop_db\<lparr>cartItems := [\<lparr>cartId = 1, productId = 5, quantity = 2\<rparr>]\<rparr>) \<and>
   removeItemFromCart shop_db 7 9 = (Inl CartItemNotFoundError, shop_db)"
proof -
  have c: "List.find (\<lambda>c. cart_customerId c = 7) (carts shop_db) =
             Some \<lparr>cart_id = 1, cart_customerId = 7\<rparr>"
    by (simp add: shop_db_def)
  note T = removeItemFromCart_cases [OF c]
  have a: "removeItemFromCart shop_db 7 5 =
     (Inr True,
      shop_db\<lparr>cartItems := [\<lparr>cartId = 1, productId = 5, quantity = 1\<rparr>,
                              \<lparr>cartId = 1, productId = 6, quantity = 1\<rparr>]\<rparr>)"
    using T [of 5, THEN conjunct1, rule_format,
        of "[]" "\<lparr>cartId = 1, productId = 5, quantity = 2\<rparr>"
           "[\<lparr>cartId = 1, productId = 6, quantity = 1\<rparr>]"]
    by (simp add: shop_db_def)
  have b: "removeItemFromCart shop_db 7 6 =
     (Inr True, shop_db\<lparr>cartItems := [\<lparr>cartId = 1, productId = 5, quantity = 2\<rparr>]\<rparr>)"
    using T [of 6, THEN conjunct1, rule_format,
        of "[\<lparr>cartId = 1, productId = 5, quantity = 2\<rparr>]"
           "\<lparr>cartId = 1, productId = 6, quantity = 1\<rparr>" "[]"]
    by (simp add: shop_db_def)
  have n: "removeItemFromCart shop_db 7 9 = (Inl CartItemNotFoundError, shop_db)"
    using T [of 9, THEN conjunct2] by (simp add: shop_db_def)
  from c a b n show ?thesis by simp
qed

lemma addItemToCart_merge:
  assumes c: "List.find (\<lambda>c. cart_customerId c = customerId) (carts db) = Some c"
    and eq: "cartItems db = ys @ item # zs"
    and P: "productId item = pid"
    and ys: "\<forall>y\<in>set ys. productId y \<noteq> pid"
  shows "addItemToCart db customerId pid q =
           (Inr True,
            db\<lparr>cartItems := ys @ item\<lparr>quantity := quantity item + quantity_or_default q\<rparr> # zs\<rparr>)"
proof -
  let ?P = "\<lambda>i. productId i = pid"
  have f: "List.find ?P (cartItems db) = Some item"
    unfolding eq using P ys by (intro find_split) simp_all
  have s: "save_first ?P g (cartItems db) = ys @ g item # zs" for g
    unfolding eq using P ys by (intro save_first_split) simp_all
  show ?thesis by (simp add: addItemToCart_def c f s)
qed

lemma addItemToCart_insert:
  assumes c: "List.find (\<lambda>c. cart_customerId c = customerId) (carts db) = Some c"
    and no: "\<forall>i\<in>set (cartItems db). productId i \<noteq> pid"
  shows "addItemToCart db customerId pid q =
           (Inr True,
            db\<lparr>cartItems := cartItems db @
              [\<lparr>cartId = cart_id c, productId = pid, quantity = quantity_or_default q\<rparr>]\<rparr>)"
proof -
  have "List.find (\<lambda>i. productId i = pid) (cartItems db) = None"
    using no by (intro find_absent) simp
  then show ?thesis by (simp add: addItemToCart_def c)
qed

lemma addItemToCart_length:
  assumes c: "List.find (\<lambda>c. cart_customerId c = customerId) (carts db) = Some c"
  shows "length (cartItems (snd (addItemToCart db customerId pid q))) =
           (if \<forall>i\<in>set (cartItems db). productId i \<noteq> pid then length (cartItems db) + 1
            else length (cartItems db))"
proof (cases "\<forall>i\<in>set (cartItems db). productId i \<noteq> pid")
  case True
  then show ?thesis using addItemToCart_insert [OF c True, of q] by simp
next
  case False
  then obtain i where "i \<in> set (cartItems db)" "productId i = pid" by blast
  then have "List.find (\<lambda>i. productId i = pid) (cartItems db) \<noteq> None"
    by (rule find_present)
  then obtain item where "List.find (\<lambda>i. productId i = pid) (cartItems db) = Some item"
    by blast
  then show ?thesis using False
    by (simp add: addItemToCart_def c length_save_first)
qed

text \<open>
  Claim C6, evaluated where it fails.  In \<open>shop_db\<close> product 5 is in the cart of
  customer 7 (cart 1).  Customer 8 (cart 2) adds product 5 twice, 2 units and then 3:
  both calls raise the quantity of the row of cart 1, from 2 to 7, and cart 2 ends with
  no row for product 5, where the claim has one row of quantity 5.
\<close>

theorem addItemToCart_twice_other_cart:
  "snd (addItemToCart (snd (addItemToCart shop_db 8 5 (Some 2))) 8 5 (Some 3)) =
     shop_db\<lparr>cartItems := [\<lparr>cartId = 1, productId = 5, quantity = 7\<rparr>,
                             \<lparr>cartId = 1, productId = 6, quantity = 1\<rparr>]\<rparr> \<and>
   rows_of (snd (addItemToCart (snd (addItemToCart shop_db 8 5 (Some 2))) 8 5 (Some 3))) 2 5 = []"
  by (simp add: shop_db_def addItemToCart_def rows_of_def quantity_or_default_def)

text \<open>
  Claim C10.  \<^verbatim>\<open>addItemToCart\<close> looks the line item up by product alone.  For a
  caller whose cart \<open>c\<close> exists: when some row of the table, of whatever cart, has the
  product, the first such row gets the quantity added and no row is created; when no
  row of any cart has the product, one row is appended, for the caller's cart; so the
  table grows by a row exactly when no cart holds the product.  And there are two
  distinct customers with distinct carts, the first holding a product, such that a call
  of the second for that product raises the first customer's row and leaves the second
  customer's cart without a row for it.
\<close>

theorem addItemToCart_finds_by_productId_alone:
  "(List.find (\<lambda>c. cart_customerId c = customerId) (carts db) = Some c \<longrightarrow>
      (\<forall>ys item zs.
          cartItems db = ys @ item # zs \<and> productId item = pid \<and>
          (\<forall>y\<in>set ys. productId y \<noteq> pid) \<longrightarrow>
          addItemToCart db customerId pid q =
            (Inr True,
             db\<lparr>cartItems :=
               ys @ item\<lparr>quantity := quantity item + quantity_or_default q\<rparr> # zs\<rparr>)) \<and>
      ((\<forall>i\<in>set (cartItems db). productId i \<noteq> pid) \<longrightarrow>
          addItemToCart db customerId pid q =
            (Inr True,
             db\<lparr>cartItems := cartItems db @
               [\<lparr>cartId = cart_id c, productId = pid, quantity = quantity_or_default q\<rparr>]\<rparr>)) \<and>
      (length (cartItems (snd (addItemToCart db customerId pid q))) = length (cartItems db) + 1
         \<longleftrightarrow> (\<forall>i\<in>set (cartItems db). productId i \<noteq> pid))) \<and>
   (\<exists>db' a b ca cb item n.
      a \<noteq> b \<and>
      List.find (\<lambda>c. cart_customerId c = a) (carts db') = Some ca \<and>
      List.find (\<lambda>c. cart_customerId c = b) (carts db') = Some cb \<and>
      cart_id ca \<noteq> cart_id cb \<and>
      item \<in> set (cartItems db') \<and> cartId item = cart_id ca \<and>
      rows_of (snd (addItemToCart db' b (productId item) (Some n))) (cart_id cb) (productId item) = [] \<and>
      rows_of (snd (addItemToCart db' b (productId item) (Some n))) (cart_id ca) (productId item) =
        [item\<lparr>quantity := quantity item + n\<rparr>])"
proof (intro conjI impI allI)
  fix ys item zs
  assume c: "List.find (\<lambda>c. cart_customerId c = customerId) (carts db) = Some c"
    and "cartItems db = ys @ item # zs \<and> productId item = pid \<and>
          (\<forall>y\<in>set ys. productId y \<noteq> pid)"
  then show "addItemToCart db customerId pid q =
            (Inr True,
             db\<lparr>cartItems :=
               ys @ item\<lparr>quantity := quantity item + quantity_or_default q\<rparr> # zs\<rparr>)"
    by (intro addItemToCart_merge) simp_all
next
  assume "List.find (\<lambda>c. cart_customerId c = customerId) (carts db) = Some c"
    and "\<forall>i\<in>set (cartItems db). productId i \<noteq> pid"
  then show "addItemToCart db customerId pid q =
            (Inr True,
             db\<lparr>cartItems := cartItems db @
               [\<lparr>cartId = cart_id c, productId = pid, quantity = quantity_or_default q\<rparr>]\<rparr>)"
    by (rule addItemToCart_insert)
next
  assume c: "List.find (\<lambda>c. cart_customerId c = customerId) (carts db) = Some c"
  show "(length (cartItems (snd (addItemToCart db customerId pid q))) = length (cartItems db) + 1)
         = (\<forall>i\<in>set (cartItems db). productId i \<noteq> pid)"
    using addItemToCart_length [OF c, of pid q] by (simp split: if_splits)
next
  let ?item = "\<lparr>cartId = 1, productId = 5, quantity = 2\<rparr>"
  let ?ca = "\<lparr>cart_id = 1, cart_customerId = 7\<rparr>"
  let ?cb = "\<lparr>cart_id = 2, cart_customerId = 8\<rparr>"
  have "(7::int) \<noteq> 8 \<and>
      List.find (\<lambda>c. cart_customerId c = 7) (carts shop_db) = Some ?ca \<and>
      List.find (\<lambda>c. cart_customerId c = 8) (carts shop_db) = Some ?cb \<and>
      cart_id ?ca \<noteq> cart_id ?cb \<and>
      ?item \<in> set (cartItems shop_db) \<and> cartId ?item = cart_id ?ca \<and>
      rows_of (snd (addItemToCart shop_db 8 (productId ?item) (Some 3)))
        (cart_id ?cb) (productId ?item) = [] \<and>
      rows_of (snd (addItemToCart shop_db 8 (productId ?item) (Some 3)))
        (cart_id ?ca) (productId ?item) =
        [?item\<lparr>quantity := quantity ?item + 3\<rparr>]"
    by (simp add: shop_db_def addItemToCart_def rows_of_def quantity_or_default_def)
  then show "\<exists>db' a b ca cb item n.
      a \<noteq> b \<and>
      List.find (\<lambda>c. cart_customerId c = a) (carts db') = Some ca \<and>
      List.find (\<lambda>c. cart_customerId c = b) (carts db') = Some cb \<and>
      cart_id ca \<noteq> cart_id cb \<and>
      item \<in> set (cartItems db') \<and> cartId item = cart_id ca \<and>
      rows_of (snd (addItemToCart db' b (productId item) (Some n))) (cart_id cb) (productId item) = [] \<and>
      rows_of (snd (addItemToCart db' b (productId item) (Some n))) (cart_id ca) (productId item) =
        [item\<lparr>quantity := quantity item + n\<rparr>]"
    by blast
qed

text \<open>
  Witness for C10 in \<open>shop_db\<close>: customer 8 adds 3 units of product 5, which customer 7
  holds, and one unit (the default) of product 9, which nobody holds.
\<close>

theorem addItemToCart_finds_by_productId_alone_witness:
  "List.find (\<lambda>c. cart_customerId c = 8) (carts shop_db) = Some \<lparr>cart_id = 2, cart_customerId = 8\<rparr> \<and>
   addItemToCart shop_db 8 5 (Some 3) =
     (Inr True,
      shop_db\<lparr>cartItems := [\<lparr>cartId = 1, productId = 5, quantity = 5\<rparr>,
                              \<lparr>cartId = 1, productId = 6, quantity = 1\<rparr>]\<rparr>) \<and>
   addItemToCart shop_db 8 9 None =
     (Inr True,
      shop_db\<lparr>cartItems := [\<lparr>cartId = 1, productId = 5, quantity = 2\<rparr>,
                              \<lparr>cartId = 1, productId = 6, quantity = 1\<rparr>,
                              \<lparr>cartId = 2, productId = 9, quantity = 1\<rparr>]\<rparr>)"
proof -
  have c: "List.find (\<lambda>c. cart_customerId c = 8) (carts shop_db) = Some \<lparr>cart_id = 2, cart_customerId = 8\<rparr>"
    by (simp add: shop_db_def)
  have no: "\<forall>i\<in>set (cartItems shop_db). productId i \<noteq> 9"
    by (simp add: shop_db_def)
  note T = addItemToCart_finds_by_productId_alone
    [of 8 shop_db "\<lparr>cart_id = 2, cart_customerId = 8\<rparr>", THEN conjunct1, THEN mp, OF c]
  have m: "addItemToCart shop_db 8 5 (Some 3) =
     (Inr True,
      shop_db\<lparr>cartItems := [\<lparr>cartId = 1, productId = 5, quantity = 5\<rparr>,
                              \<lparr>cartId = 1, productId = 6, quantity = 1\<rparr>]\<rparr>)"
    using T [of 5 "Some 3", THEN conjunct1, rule_format,
        of "[]" "\<lparr>cartId = 1, productId = 5, quantity = 2\<rparr>"
           "[\<lparr>cartId = 1, productId = 6, quantity = 1\<rparr>]"]
    by (simp add: quantity_or_default_def shop_db_def)
  have n: "addItemToCart shop_db 8 9 None =
     (Inr True,
      shop_db\<lparr>cartItems := [\<lparr>cartId = 1, productId = 5, quantity = 2\<rparr>,
                              \<lparr>cartId = 1, productId = 6, quantity = 1\<rparr>,
                              \<lparr>cartId = 2, productId = 9, quantity = 1\<rparr>]\<rparr>)"
    using T [of 9 None, THEN conjunct2, THEN conjunct1, THEN mp, OF no]
    by (simp add: quantity_or_default_def shop_db_def)
  from c m n show ?thesis by simp
qed

section \<open>Billing worker: properties\<close>

lemmas worker_defs = handle_job_def processor_def processPayment_def on_completed_def persist_def
  on_persist_error_def on_failed_def transaction_begin_def transaction_commit_def
  transaction_rollback_def emit_def charges_def Let_def

lemma foldl_add_sum_list:
  "foldl (\<lambda>acc price. acc + price) (a::rat) xs = a + sum_list xs"
  by (induction xs arbitrary: a) (simp_all add: add.assoc)

lemma linePrices_all:
  "\<forall>i\<in>set items. price (item_productId i) \<noteq> None \<Longrightarrow>
   linePrices price items =
     Inr (map (\<lambda>i. the (price (item_productId i)) * of_int (item_quantity i)) items)"
  by (induction items) auto

lemma linePrices_missing:
  "\<exists>i\<in>set items. price (item_productId i) = None \<Longrightarrow>
   linePrices price items = Inl ProductNotFoundError"
proof (induction items)
  case Nil
  then show ?case by simp
next
  case (Cons a items)
  show ?case
  proof (cases "price (item_productId a)")
    case None
    then show ?thesis by simp
  next
    case (Some p)
    with Cons.prems have "\<exists>i\<in>set items. price (item_productId i) = None" by auto
    then have "linePrices price items = Inl ProductNotFoundError" by (rule Cons.IH)
    with Some show ?thesis by simp
  qed
qed

lemma charges_emit:
  "charges (emit e w) = charges w @ (if is_charge e then [e] else [])"
  by (simp add: charges_def emit_def)

lemma charges_tables:
  "charges (w\<lparr>orders := os\<rparr>) = charges w"
  "charges (w\<lparr>subscriptions := ss\<rparr>) = charges w"
  "charges (w\<lparr>tx_orders := os\<rparr>) = charges w"
  "charges (w\<lparr>tx_subscriptions := ss\<rparr>) = charges w"
  by (simp_all add: charges_def)

lemma charges_transaction:
  "charges (transaction_begin w) = charges w"
  "charges (transaction_commit w) = charges w"
  "charges (transaction_rollback w) = charges w"
  by (simp_all add: transaction_begin_def transaction_commit_def transaction_rollback_def
      charges_tables charges_emit)

lemma charges_persist: "charges (snd (persist sv d rv pd np w)) = charges w"
  by (simp add: persist_def Let_def charges_emit charges_tables charges_transaction
      split: sum.splits option.splits)

lemma persist_error_any_state:
  "fst (persist sv d rv pd np w) = fst (persist sv d rv pd np w')"
  by (simp add: persist_def Let_def split: sum.splits option.splits)

lemma charges_persistD: "persist sv d rv pd np w = (r, w') \<Longrightarrow> charges w' = charges w"
  using charges_persist [of sv d rv pd np w] by simp

lemma charges_on_completed: "charges (snd (on_completed sv j rv w)) = charges w"
  by (auto simp: on_completed_def on_persist_error_def Let_def charges_emit charges_transaction
      split: sum.splits option.splits prod.splits dest!: charges_persistD)

lemma charges_handle_job:
  "charges (snd (handle_job sv q j w)) = charges (snd (processPayment sv j w))"
  by (simp add: handle_job_def processor_def on_failed_def charges_emit charges_on_completed
      split: sum.splits prod.splits)

lemma processPayment_job_id: "processPayment sv (j\<lparr>job_id := k\<rparr>) w = processPayment sv j w"
  by (simp add: processPayment_def)

lemma charges_processPayment:
  assumes "\<forall>i\<in>set (orderItems (job_data j)). findProductPrice sv (item_productId i) \<noteq> None"
  shows "charges (snd (processPayment sv j w)) =
     charges w @
     (case calculateShippingCost sv (shippingCountry (job_data j)) ''next-day'' None
             (orderItems (job_data j)) of
        Inl e \<Rightarrow> []
      | Inr quote \<Rightarrow>
          [CreatePaymentIntent (userId (job_data j))
             (toFixed2
               ((\<Sum>i\<leftarrow>orderItems (job_data j).
                   the (findProductPrice sv (item_productId i)) * of_int (item_quantity i))
                + cost quote))
             (currency (job_data j)) (paymentMethodId (job_data j))])"
  by (simp add: processPayment_def Let_def linePrices_all [OF assms] foldl_add_sum_list
      charges_emit split: sum.splits option.splits)



lemma toFixed2_demo: "toFixed2 (4999 / 100) = 4999 / 100"
  by code_simp

text \<open>
  One delivery, path by path: the state it ends in and the calls it makes, for every
  answer of the collaborators.
\<close>

lemma handle_job_unfold:
  "handle_job sv q j w =
     (let d = job_data j;
          ship = CalculateShippingCost (shippingCountry d) ''next-day'' None (orderItems d);
          failedWith = (\<lambda>es e.
            (failed (WorkerError q),
             w\<lparr>trace := trace w @ es @
                [Console (ProcessorError e), Console (JobFailed (job_id j) (WorkerError q))]\<rparr>))
      in (case linePrices (findProductPrice sv) (orderItems d) of
            Inl e \<Rightarrow> failedWith [] e
          | Inr prices \<Rightarrow>
             (case calculateShippingCost sv (shippingCountry d) ''next-day'' None (orderItems d) of
                Inl e \<Rightarrow> failedWith [ship] e
              | Inr quote \<Rightarrow>
                 (let amount = toFixed2 (foldl (\<lambda>acc price. acc + price) 0 prices + cost quote);
                      pay = CreatePaymentIntent (userId d) amount (currency d) (paymentMethodId d);
                      pre = [ship, pay, Console PaymentIntentCreated,
                             Console (JobCompleted (job_id j))];
                      co = CreateOrder (userId d) (orderItems d) (paymentMethod d)
                             (shippingCountry d) (weightRange quote) ''next-day'';
                      rolled = (\<lambda>es e.
                        w\<lparr>trace := trace w @ pre @ [BeginTransaction] @ es @
                             [Rollback, Console (CompleteEventError e)],
                          tx_orders := [], tx_subscriptions := []\<rparr>)
                  in (case createPaymentIntent sv (userId d) amount (currency d)
                             (paymentMethodId d) of
                        Some e \<Rightarrow> failedWith [ship, pay] e
                      | None \<Rightarrow>
                          (completed (weightRange quote),
                           (case toISODate (newDate sv) of
                              Inl e \<Rightarrow> w\<lparr>trace := trace w @ pre\<rparr>
                            | Inr pd \<Rightarrow>
                               (case toISODate (dateNow sv + period d) of
                                  Inl e \<Rightarrow> w\<lparr>trace := trace w @ pre\<rparr>
                                | Inr np \<Rightarrow>
                                   (case createOrder sv (userId d) (orderItems d)
                                           (paymentMethod d) (shippingCountry d)
                                           (weightRange quote) ''next-day'' of
                                      Inl e \<Rightarrow> rolled [co] e
                                    | Inr ord \<Rightarrow>
                                       (let sub =
                                          \<lparr>sub_customerId = order_customerId ord,
                                           sub_orderId = order_id ord,
                                           sub_startDate = startDate d,
                                           sub_endDate = endDate d,
                                           lastPaymentDate = pd,
                                           nextPaymentDate = np\<rparr>
                                        in (case subscriptionCreate sv sub of
                                              Some e \<Rightarrow> rolled [co, SubscriptionCreate sub] e
                                            | None \<Rightarrow>
                                               (case transactionCommit sv of
                                                  Some e \<Rightarrow>
                                                    rolled [co, SubscriptionCreate sub, Commit] e
                                                | None \<Rightarrow>
                                                    w\<lparr>trace := trace w @ pre @
                                                         [BeginTransaction, co,
                                                          SubscriptionCreate sub, Commit],
                                                      orders := orders w @ [ord],
                                                      subscriptions :=
                                                        subscriptions w @ [sub],
                                                      tx_orders := [],
                                                      tx_subscriptions := []\<rparr>))))))))))))"
  by (simp add: handle_job_def processor_def processPayment_def on_completed_def persist_def
      on_persist_error_def on_failed_def transaction_begin_def transaction_commit_def
      transaction_rollback_def emit_def Let_def
      split: sum.splits option.splits)



text \<open>
  Counterexample to C1 as stated: the job with id \<^verbatim>\<open>42\<close> is delivered twice and
  the gateway receives two charge calls, neither of which carries the job id.
\<close>

theorem same_job_twice_two_charges:
  "charges (snd (handle_job demo_services ''billing'' demo_job
             (snd (handle_job demo_services ''billing'' demo_job empty_world)))) =
     [CreatePaymentIntent 1 (4999 / 100) ''usd'' ''pm_card'',
      CreatePaymentIntent 1 (4999 / 100) ''usd'' ''pm_card'']"
  by (simp add: worker_defs toISODate_def demo_job_def demo_services_def empty_world_def toFixed2_demo)

text \<open>
  Claim C1, amended.  The charge call carries the user id, the rounded total, the
  currency and the payment method id, and nothing of the job id: the charge calls of a
  delivery are the same whatever the job id is.  Each delivery of a job whose pricing
  succeeds adds one charge call, so two deliveries of the same job add two equal calls.
\<close>

theorem charge_call_has_no_job_id:
  "charges (snd (handle_job sv q (j\<lparr>job_id := k\<rparr>) w)) = charges (snd (handle_job sv q j w)) \<and>
   ((\<forall>i\<in>set (orderItems (job_data j)). findProductPrice sv (item_productId i) \<noteq> None) \<and>
    calculateShippingCost sv (shippingCountry (job_data j)) ''next-day'' None
      (orderItems (job_data j)) = Inr quote \<longrightarrow>
    charges (snd (handle_job sv q j (snd (handle_job sv q j w)))) =
      charges w @
      replicate 2
        (CreatePaymentIntent (userId (job_data j))
           (toFixed2
              ((\<Sum>i\<leftarrow>orderItems (job_data j).
                  the (findProductPrice sv (item_productId i)) * of_int (item_quantity i))
               + cost quote))
           (currency (job_data j)) (paymentMethodId (job_data j))))"
proof (intro conjI impI)
  show "charges (snd (handle_job sv q (j\<lparr>job_id := k\<rparr>) w)) = charges (snd (handle_job sv q j w))"
    by (simp add: charges_handle_job processPayment_job_id)
next
  assume h: "(\<forall>i\<in>set (orderItems (job_data j)). findProductPrice sv (item_productId i) \<noteq> None) \<and>
    calculateShippingCost sv (shippingCountry (job_data j)) ''next-day'' None
      (orderItems (job_data j)) = Inr quote"
  then have all: "\<forall>i\<in>set (orderItems (job_data j)). findProductPrice sv (item_productId i) \<noteq> None"
    and q: "calculateShippingCost sv (shippingCountry (job_data j)) ''next-day'' None
      (orderItems (job_data j)) = Inr quote"
    by simp_all
  have one: "charges (snd (handle_job sv q j v)) =
      charges v @
        [CreatePaymentIntent (userId (job_data j))
           (toFixed2
              ((\<Sum>i\<leftarrow>orderItems (job_data j).
                  the (findProductPrice sv (item_productId i)) * of_int (item_quantity i))
               + cost quote))
           (currency (job_data j)) (paymentMethodId (job_data j))]" for v
    using charges_processPayment [OF all, of v] q by (simp add: charges_handle_job)
  show "charges (snd (handle_job sv q j (snd (handle_job sv q j w)))) =
      charges w @
      replicate 2
        (CreatePaymentIntent (userId (job_data j))
           (toFixed2
              ((\<Sum>i\<leftarrow>orderItems (job_data j).
                  the (findProductPrice sv (item_productId i)) * of_int (item_quantity i))
               + cost quote))
           (currency (job_data j)) (paymentMethodId (job_data j)))"
    by (simp add: one numeral_2_eq_2)
qed

text \<open>Witness for the amended C1 at the end-to-end job.\<close>

theorem charge_call_has_no_job_id_witness:
  "orderItems (job_data demo_job) = [\<lparr>item_productId = 5, item_quantity = 2\<rparr>] \<and>
   findProductPrice demo_services 5 = Some 20 \<and>
   calculateShippingCost demo_services (shippingCountry (job_data demo_job)) ''next-day'' None
     (orderItems (job_data demo_job)) = Inr \<lparr>cost = 999 / 100, weightRange = standard\<rparr> \<and>
   charges (snd (handle_job demo_services ''billing'' demo_job
             (snd (handle_job demo_services ''billing'' demo_job empty_world)))) =
     charges empty_world @
       replicate 2 (CreatePaymentIntent 1 (4999 / 100) ''usd'' ''pm_card'')"
proof -
  have h: "(\<forall>i\<in>set (orderItems (job_data demo_job)).
       findProductPrice demo_services (item_productId i) \<noteq> None) \<and>
    calculateShippingCost demo_services (shippingCountry (job_data demo_job)) ''next-day'' None
      (orderItems (job_data demo_job)) = Inr \<lparr>cost = 999 / 100, weightRange = standard\<rparr>"
    by (simp add: demo_job_def demo_services_def)
  have "charges (snd (handle_job demo_services ''billing'' demo_job
             (snd (handle_job demo_services ''billing'' demo_job empty_world)))) =
     charges empty_world @
       replicate 2 (CreatePaymentIntent 1 (4999 / 100) ''usd'' ''pm_card'')"
    using charge_call_has_no_job_id
      [where sv = demo_services and q = "''billing''" and j = demo_job and w = empty_world
          and quote = "\<lparr>cost = 999 / 100, weightRange = standard\<rparr>",
        THEN conjunct2, THEN mp, OF h]
    by (simp add: demo_job_def demo_services_def toFixed2_demo)
  then show ?thesis by (simp add: demo_job_def demo_services_def)
qed

text \<open>
  Claim C2.  One delivery of a job either leaves the order and subscription tables as
  they were, or adds exactly one order and exactly one subscription that refers to it;
  in the second case a \<^verbatim>\<open>createPaymentIntent\<close> call for the job's user,
  currency and payment method was made during the delivery and was answered without an
  error.  (\<^verbatim>\<open>createOrder\<close> is handed the transaction and is taken to write
  through it; its code is not among the sources.)
\<close>

theorem order_and_subscription_atomic_after_charge:
  "(orders (snd (handle_job sv q j w)) = orders w \<and>
    subscriptions (snd (handle_job sv q j w)) = subscriptions w) \<or>
   (\<exists>ord sub amount.
      orders (snd (handle_job sv q j w)) = orders w @ [ord] \<and>
      subscriptions (snd (handle_job sv q j w)) = subscriptions w @ [sub] \<and>
      sub_orderId sub = order_id ord \<and>
      createPaymentIntent sv (userId (job_data j)) amount (currency (job_data j))
        (paymentMethodId (job_data j)) = None \<and>
      CreatePaymentIntent (userId (job_data j)) amount (currency (job_data j))
        (paymentMethodId (job_data j)) \<in> set (new_events w (snd (handle_job sv q j w))))"
  by (simp add: handle_job_unfold Let_def new_events_def split: sum.splits option.splits)

text \<open>Witness for C2: the end-to-end job adds order 100 and one subscription for it.\<close>

theorem order_and_subscription_atomic_after_charge_witness:
  "orders (snd (handle_job demo_services ''billing'' demo_job empty_world)) =
     [\<lparr>order_id = 100, order_customerId = 1\<rparr>] \<and>
   (\<exists>sub. subscriptions (snd (handle_job demo_services ''billing'' demo_job empty_world)) = [sub] \<and>
          sub_orderId sub = 100)"
proof -
  have o: "orders (snd (handle_job demo_services ''billing'' demo_job empty_world)) =
     [\<lparr>order_id = 100, order_customerId = 1\<rparr>]"
    by (simp add: worker_defs toISODate_def demo_services_def demo_job_def empty_world_def
        toFixed2_demo)
  from order_and_subscription_atomic_after_charge
         [of demo_services "''billing''" demo_job empty_world] o
  have "\<exists>sub. subscriptions (snd (handle_job demo_services ''billing'' demo_job empty_world)) = [sub] \<and>
          sub_orderId sub = 100"
    by (auto simp: empty_world_def)
  with o show ?thesis by simp
qed




text \<open>
  Counterexample to C5 as stated: product 5 is missing, and the job fails with the
  processor's \<open>WorkerError\<close>, not with \<open>ProductNotFoundError\<close>.
\<close>

theorem missing_product_job_fails_with_worker_error:
  "orderItems (job_data demo_job) = [\<lparr>item_productId = 5, item_quantity = 2\<rparr>] \<and>
   findProductPrice no_product_services 5 = None \<and>
   fst (handle_job no_product_services ''billing'' demo_job empty_world) =
     failed (WorkerError ''billing'') \<and>
   fst (handle_job no_product_services ''billing'' demo_job empty_world) \<noteq>
     failed ProductNotFoundError"
  by (simp add: worker_defs no_product_services_def demo_services_def demo_job_def empty_world_def)

text \<open>
  Claim C5, amended.  When some item of the job names a product that does not exist,
  \<^verbatim>\<open>processPayment\<close> throws \<open>ProductNotFoundError\<close>; the processor writes it
  to the console and throws \<open>WorkerError\<close> for the queue name in its place, which is
  the error the job fails with.  Nothing else happens: no charge call is made and the
  order and subscription tables are unchanged.
\<close>

theorem missing_product_fails_job_without_charge:
  assumes "\<exists>i\<in>set (orderItems (job_data j)). findProductPrice sv (item_productId i) = None"
  shows "fst (processPayment sv j w) = Inl ProductNotFoundError \<and>
         handle_job sv q j w =
           (failed (WorkerError q),
            w\<lparr>trace := trace w @
               [Console (ProcessorError ProductNotFoundError),
                Console (JobFailed (job_id j) (WorkerError q))]\<rparr>) \<and>
         charges (snd (handle_job sv q j w)) = charges w \<and>
         orders (snd (handle_job sv q j w)) = orders w \<and>
         subscriptions (snd (handle_job sv q j w)) = subscriptions w"
  using linePrices_missing [OF assms]
  by (simp add: handle_job_unfold processPayment_def charges_def Let_def)

text \<open>Witness for the amended C5 with product 5 deleted.\<close>

theorem missing_product_fails_job_without_charge_witness:
  "orderItems (job_data demo_job) = [\<lparr>item_productId = 5, item_quantity = 2\<rparr>] \<and>
   findProductPrice no_product_services 5 = None \<and>
   fst (processPayment no_product_services demo_job empty_world) = Inl ProductNotFoundError \<and>
   handle_job no_product_services ''billing'' demo_job empty_world =
     (failed (WorkerError ''billing''),
      \<lparr>trace = [Console (ProcessorError ProductNotFoundError),
                Console (JobFailed ''42'' (WorkerError ''billing''))],
       orders = [], subscriptions = [], tx_orders = [], tx_subscriptions = []\<rparr>)"
proof -
  have h: "\<exists>i\<in>set (orderItems (job_data demo_job)).
      findProductPrice no_product_services (item_productId i) = None"
    by (simp add: no_product_services_def demo_services_def demo_job_def)
  from missing_product_fails_job_without_charge [OF h, of empty_world "''billing''"]
  have "fst (processPayment no_product_services demo_job empty_world) = Inl ProductNotFoundError \<and>
   handle_job no_product_services ''billing'' demo_job empty_world =
     (failed (WorkerError ''billing''),
      \<lparr>trace = [Console (ProcessorError ProductNotFoundError),
                Console (JobFailed ''42'' (WorkerError ''billing''))],
       orders = [], subscriptions = [], tx_orders = [], tx_subscriptions = []\<rparr>)"
    by (simp add: empty_world_def demo_job_def)
  then show ?thesis by (simp add: demo_job_def no_product_services_def)
qed






end
